theory Spec2Isabelle
  imports Complex_Main "HOL-Library.AList"
begin

section \<open>The world the clip maker runs in\<close>

text \<open>
  The program under study is \<^verbatim>\<open>src/skills/video-clip-maker/video-clip-maker.py\<close>.
  Every stage of it shells out to an external tool (\<^verbatim>\<open>yt-dlp\<close>, \<^verbatim>\<open>ffprobe\<close>,
  \<^verbatim>\<open>ffmpeg\<close>, \<^verbatim>\<open>which\<close>), calls the Whisper engine, or touches the file system.
  The embedding passes the file system and a log of the tool invocations along explicitly
  (record \<open>world\<close>) and takes the behaviour of everything outside the source as a
  parameter (record \<open>env\<close>): each theorem below holds for every behaviour of the tools.

  Conventions of the embedding:
  \<^item> Python numbers (the \<^verbatim>\<open>int\<close> clip duration, the \<^verbatim>\<open>float\<close> probed duration and
    start time) are real numbers; rounding of floating-point arithmetic and the values
    \<^verbatim>\<open>nan\<close> and \<^verbatim>\<open>inf\<close> are outside the model.
  \<^item> \<^verbatim>\<open>subprocess.run(cmd, check=True)\<close> either completes with exit status 0 or raises
    \<^verbatim>\<open>CalledProcessError\<close>. A binary that cannot be launched at all is outside the model
    (\<^verbatim>\<open>main\<close> leaves at its dependency check when \<^verbatim>\<open>yt-dlp\<close> or \<^verbatim>\<open>ffmpeg\<close> is missing).
  \<^item> \<^verbatim>\<open>print\<close> calls are omitted; directories are not modelled, so \<^verbatim>\<open>os.makedirs\<close> and
    \<^verbatim>\<open>Path.mkdir\<close> with \<^verbatim>\<open>exist_ok=True\<close> are no-ops; opening a file for writing succeeds.
\<close>

type_synonym path = string
type_synonym cmdline = "string list"

record segment =
  seg_start :: real
  seg_end :: real
  seg_text :: string

record metadata =
  md_original_url :: string
  md_clip_start :: real
  md_clip_duration :: real
  md_vertical_clip :: string
  md_final_clip :: string
  md_thumbnail :: string
  md_subtitles :: "string option"
  md_timestamp :: string
  md_quality :: string

text \<open>
  The dictionary \<^verbatim>\<open>metadata\<close> of \<^verbatim>\<open>main\<close>, its nested \<^verbatim>\<open>output_files\<close> flattened; field
  \<open>md_k\<close> is the key \<^verbatim>\<open>k\<close>, and \<open>None\<close> is the JSON \<^verbatim>\<open>null\<close>.
\<close>

text \<open>
  What a file holds: text written by the program, the JSON dump of the metadata, the
  complete output of a tool invocation, or what a failing invocation left behind.
\<close>

datatype content =
    Text string
  | Json metadata
  | Encoded cmdline
  | Truncated cmdline

text \<open>
  The outcome of one tool invocation: exit status 0 with the captured standard output, or
  a non-zero exit status with the captured standard error and a flag telling whether the
  tool left a partial output file behind.
\<close>

datatype proc_result =
    Exit0 string
  | ExitNonzero string bool

datatype exc = FileNotFoundError

record world =
  files :: "(path \<times> content) list"
  calls :: "(cmdline \<times> bool) list"

record env =
  has_opencv :: bool
  has_whisper :: bool
  tool :: "world \<Rightarrow> cmdline \<Rightarrow> proc_result"
  ytdlp_files :: "cmdline \<Rightarrow> path list"
  mktemp :: "world \<Rightarrow> string option \<Rightarrow> string \<Rightarrow> path"
  wave_readable :: "world \<Rightarrow> path \<Rightarrow> bool"
  transcribe :: "world \<Rightarrow> path \<Rightarrow> string \<Rightarrow> segment list option"
  py_float :: "string \<Rightarrow> real option"
  py_int :: "string \<Rightarrow> int option"
  py_str :: "real \<Rightarrow> string"
  now :: string

subsection \<open>File system primitives\<close>

definition lookup :: "world \<Rightarrow> path \<Rightarrow> content option" where
  "lookup w p = map_of (files w) p"

definition os_path_exists :: "world \<Rightarrow> path \<Rightarrow> bool" where
  "os_path_exists w p = (lookup w p \<noteq> None)"

definition write_file :: "path \<Rightarrow> content \<Rightarrow> world \<Rightarrow> world" where
  "write_file p c w = w\<lparr>files := AList.update p c (files w)\<rparr>"

definition os_unlink :: "path \<Rightarrow> world \<Rightarrow> (exc + unit) \<times> world" where
  "os_unlink p w =
     (if os_path_exists w p then (Inr (), w\<lparr>files := AList.delete p (files w)\<rparr>)
      else (Inl FileNotFoundError, w))"

definition shutil_copy2 :: "path \<Rightarrow> path \<Rightarrow> world \<Rightarrow> (exc + unit) \<times> world" where
  "shutil_copy2 src dst w =
     (case lookup w src of
        None \<Rightarrow> (Inl FileNotFoundError, w)
      | Some c \<Rightarrow> (Inr (), write_file dst c w))"

text \<open>
  \<^verbatim>\<open>tempfile.NamedTemporaryFile(suffix=..., delete=False, dir=...)\<close>: the name comes from
  the environment, the file is created empty and stays after the \<^verbatim>\<open>with\<close> block.
\<close>

definition named_temporary_file :: "env \<Rightarrow> string \<Rightarrow> string option \<Rightarrow> world \<Rightarrow> path \<times> world" where
  "named_temporary_file env suffix dir w =
     (let name = mktemp env w dir suffix in (name, write_file name (Text []) w))"

definition os_path_join :: "path \<Rightarrow> string \<Rightarrow> path" where
  "os_path_join a b =
     (if b \<noteq> [] \<and> hd b = CHR ''/'' then b
      else if a = [] \<or> last a = CHR ''/'' then a @ b
      else a @ ''/'' @ b)"

subsection \<open>Running a tool\<close>

text \<open>
  The files an invocation writes: \<^verbatim>\<open>ffmpeg ... -y OUT\<close> writes its last argument only,
  \<^verbatim>\<open>yt-dlp\<close> writes the files the environment names, \<^verbatim>\<open>ffprobe\<close> and \<^verbatim>\<open>which\<close> write
  nothing.
\<close>

definition targets :: "env \<Rightarrow> cmdline \<Rightarrow> path list" where
  "targets env cmd =
     (case cmd of
        [] \<Rightarrow> []
      | prog # args \<Rightarrow>
          if prog = ''ffmpeg'' then (if args = [] then [] else [last args])
          else if prog = ''yt-dlp'' then ytdlp_files env cmd
          else [])"

definition write_all :: "path list \<Rightarrow> content \<Rightarrow> world \<Rightarrow> world" where
  "write_all ps c w = fold (\<lambda>p. write_file p c) ps w"

definition log_call :: "cmdline \<Rightarrow> bool \<Rightarrow> world \<Rightarrow> world" where
  "log_call cmd ok w = w\<lparr>calls := calls w @ [(cmd, ok)]\<rparr>"

text \<open>
  \<^verbatim>\<open>subprocess.run(cmd, capture_output=True, check=True)\<close>: \<open>Inr\<close> of the standard output
  on exit status 0, \<open>Inl\<close> of the standard error for \<^verbatim>\<open>CalledProcessError\<close>. Every
  invocation is appended to the log with its success flag.
\<close>

definition subprocess_run :: "env \<Rightarrow> cmdline \<Rightarrow> world \<Rightarrow> (string + string) \<times> world" where
  "subprocess_run env cmd w =
     (case tool env w cmd of
        Exit0 out \<Rightarrow> (Inr out, log_call cmd True (write_all (targets env cmd) (Encoded cmd) w))
      | ExitNonzero err partial \<Rightarrow>
          (Inl err, log_call cmd False
             (if partial then write_all (targets env cmd) (Truncated cmd) w else w)))"

subsection \<open>String helpers of the Python library\<close>

text \<open>
  \<^verbatim>\<open>str.strip\<close>, \<^verbatim>\<open>str.split\<close> with a separator, \<^verbatim>\<open>str.startswith\<close> and \<^verbatim>\<open>str\<close> of a
  natural number; \<open>py_isspace\<close> covers the ASCII blanks. The conversions \<^verbatim>\<open>float\<close>,
  \<^verbatim>\<open>int\<close> and \<^verbatim>\<open>str\<close> of a float are parameters of the environment.
\<close>

definition py_isspace :: "char \<Rightarrow> bool" where
  "py_isspace c = (c \<in> set [CHR '' '', CHR 0x09, CHR 0x0A, CHR 0x0B, CHR 0x0C, CHR 0x0D])"

definition py_strip :: "string \<Rightarrow> string" where
  "py_strip s = rev (dropWhile py_isspace (rev (dropWhile py_isspace s)))"

fun py_split :: "char \<Rightarrow> string \<Rightarrow> string list" where
  "py_split sep [] = [[]]"
| "py_split sep (c # cs) =
     (if c = sep then [] # py_split sep cs
      else (case py_split sep cs of r # rs \<Rightarrow> (c # r) # rs | [] \<Rightarrow> [[c]]))"

definition py_startswith :: "string \<Rightarrow> string \<Rightarrow> bool" where
  "py_startswith s p = (take (length p) s = p)"

fun str_nat :: "nat \<Rightarrow> string" where
  "str_nat n = (if n < 10 then [''0123456789'' ! n] else str_nat (n div 10) @ [''0123456789'' ! (n mod 10)])"

declare str_nat.simps [simp del]

section \<open>DurationProbe and HighlightSelector\<close>

definition ffprobe_duration_cmd :: "path \<Rightarrow> cmdline" where
  "ffprobe_duration_cmd video_path =
     [''ffprobe'', ''-v'', ''error'', ''-show_entries'', ''format=duration'',
      ''-of'', ''default=noprint_wrappers=1:nokey=1'', video_path]"

text \<open>
  \<^verbatim>\<open>get_video_duration\<close>: the bare \<^verbatim>\<open>except\<close> turns a failing probe and an output that
  \<^verbatim>\<open>float\<close> rejects into the default 300.
\<close>

definition get_video_duration :: "env \<Rightarrow> path \<Rightarrow> world \<Rightarrow> real \<times> world" where
  "get_video_duration env video_path w =
     (case subprocess_run env (ffprobe_duration_cmd video_path) w of
        (Inl err, w') \<Rightarrow> (300, w')
      | (Inr out, w') \<Rightarrow>
          (case py_float env (py_strip out) of
             None \<Rightarrow> (300, w')
           | Some d \<Rightarrow> (d, w')))"

definition extract_audio_cmd :: "path \<Rightarrow> path \<Rightarrow> cmdline" where
  "extract_audio_cmd video_path audio_path =
     [''ffmpeg'', ''-i'', video_path, ''-vn'', ''-acodec'', ''pcm_s16le'',
      ''-ar'', ''16000'', ''-ac'', ''1'', ''-y'', audio_path]"

text \<open>
  \<^verbatim>\<open>detect_audio_highlights\<close>: the \<^verbatim>\<open>try\<close> body extracts the audio, reads it with
  \<^verbatim>\<open>wave\<close>, removes the temporary file and returns the middle segment; the bare
  \<^verbatim>\<open>except\<close> computes the same middle segment (and leaves the temporary file).
\<close>

definition detect_audio_highlights :: "env \<Rightarrow> path \<Rightarrow> real \<Rightarrow> world \<Rightarrow> (real \<times> real) \<times> world" where
  "detect_audio_highlights env video_path target_duration w =
     (let (audio_path, w0) = named_temporary_file env ''.wav'' None w;
          fallback = (\<lambda>w'.
            let (total_duration, w'') = get_video_duration env video_path w';
                start_time = max 0 ((total_duration - target_duration) / 2)
            in ((start_time, target_duration), w''))
      in case subprocess_run env (extract_audio_cmd video_path audio_path) w0 of
           (Inl err, w1) \<Rightarrow> fallback w1
         | (Inr out, w1) \<Rightarrow>
             if \<not> wave_readable env w1 audio_path then fallback w1
             else (case os_unlink audio_path w1 of
                     (Inl e, w2) \<Rightarrow> fallback w2
                   | (Inr u, w2) \<Rightarrow>
                       let (total_duration, w3) = get_video_duration env video_path w2;
                           start_time = max 0 ((total_duration - target_duration) / 2)
                       in ((start_time, target_duration), w3)))"

definition detect_face_segments :: "env \<Rightarrow> path \<Rightarrow> real \<Rightarrow> world \<Rightarrow> (real \<times> real) \<times> world" where
  "detect_face_segments env video_path target_duration w =
     (let (total_duration, w') = get_video_duration env video_path w;
          start_time = max 0 ((total_duration - target_duration) / 2)
      in ((start_time, target_duration), w'))"

definition detect_highlights :: "env \<Rightarrow> path \<Rightarrow> real \<Rightarrow> string \<Rightarrow> world \<Rightarrow> (real \<times> real) \<times> world" where
  "detect_highlights env video_path duration method w =
     (if \<not> has_opencv env then
        (let (total, w') = get_video_duration env video_path w in ((total, duration), w'))
      else
        (let (total_duration, w1) = get_video_duration env video_path w in
         if method = ''audio'' then detect_audio_highlights env video_path duration w1
         else if method = ''face'' then detect_face_segments env video_path duration w1
         else (let start_time = max 0 ((total_duration - duration) / 2)
               in ((start_time, duration), w1))))"

section \<open>FrameTransformer\<close>

definition ffprobe_size_cmd :: "path \<Rightarrow> cmdline" where
  "ffprobe_size_cmd input_path =
     [''ffprobe'', ''-v'', ''error'', ''-select_streams'', ''v:0'',
      ''-show_entries'', ''stream=width,height'', ''-of'', ''csv=p=0'', input_path]"

text \<open>
  \<^verbatim>\<open>width, height = map(int, result.stdout.strip().split(','))\<close> inside the
  \<^verbatim>\<open>try\<close>: anything but exactly two fields that \<^verbatim>\<open>int\<close> accepts raises, and the bare
  \<^verbatim>\<open>except\<close> installs the default 1920 by 1080.
\<close>

definition probe_size :: "env \<Rightarrow> path \<Rightarrow> world \<Rightarrow> (int \<times> int) \<times> world" where
  "probe_size env input_path w =
     (case subprocess_run env (ffprobe_size_cmd input_path) w of
        (Inl err, w') \<Rightarrow> ((1920, 1080), w')
      | (Inr out, w') \<Rightarrow>
          (case map (py_int env) (py_split CHR '','' (py_strip out)) of
             [Some width, Some height] \<Rightarrow> ((width, height), w')
           | _ \<Rightarrow> ((1920, 1080), w')))"

text \<open>
  The filter and the command line of the encode. The source computes \<^verbatim>\<open>width\<close> and
  \<^verbatim>\<open>height\<close> first and then builds the filter from the two target constants alone; the
  parameters \<open>width\<close> and \<open>height\<close> are kept here to show that.
\<close>

definition vertical_filter :: "int \<Rightarrow> int \<Rightarrow> string" where
  "vertical_filter width height =
     (let target_width = 1080;
          target_height = 1920;
          scale_filter = ''scale=-2:'' @ str_nat target_height;
          crop_filter = ''crop='' @ str_nat target_width @ '':'' @ str_nat target_height
      in scale_filter @ '','' @ crop_filter)"

definition vertical_clip_cmd :: "env \<Rightarrow> path \<Rightarrow> path \<Rightarrow> real \<Rightarrow> real \<Rightarrow> int \<Rightarrow> int \<Rightarrow> cmdline" where
  "vertical_clip_cmd env input_path output_path start_time duration width height =
     [''ffmpeg'', ''-ss'', py_str env start_time, ''-i'', input_path,
      ''-t'', py_str env duration, ''-vf'', vertical_filter width height,
      ''-c:v'', ''libx264'', ''-preset'', ''medium'', ''-crf'', ''23'',
      ''-c:a'', ''aac'', ''-b:a'', ''128k'', ''-y'', output_path]"

definition create_vertical_clip :: "env \<Rightarrow> path \<Rightarrow> path \<Rightarrow> real \<Rightarrow> real \<Rightarrow> world \<Rightarrow> bool \<times> world" where
  "create_vertical_clip env input_path output_path start_time duration w =
     (let ((width, height), w1) = probe_size env input_path w
      in case subprocess_run env
                (vertical_clip_cmd env input_path output_path start_time duration width height) w1 of
           (Inr out, w2) \<Rightarrow> (True, w2)
         | (Inl err, w2) \<Rightarrow> (False, w2))"

section \<open>TranscriptGenerator\<close>

definition fmt_02d :: "int \<Rightarrow> string" where
  "fmt_02d i =
     (let sign = (if i < 0 then ''-'' else []);
          digits = str_nat (nat \<bar>i\<bar>)
      in sign @ replicate (2 - length sign - length digits) CHR ''0'' @ digits)"

definition round_half_even :: "real \<Rightarrow> int" where
  "round_half_even x =
     (let f = \<lfloor>x\<rfloor>; d = x - of_int f
      in if d < 1 / 2 then f else if 1 / 2 < d then f + 1 else if even f then f else f + 1)"

text \<open>\<^verbatim>\<open>f"{secs:06.3f}"\<close> for \<open>0 \<le> secs\<close>: three decimals, zero-padded to six characters.\<close>

definition fmt_06_3f :: "real \<Rightarrow> string" where
  "fmt_06_3f secs =
     (let ms = nat (round_half_even (secs * 1000));
          whole = str_nat (ms div 1000);
          frac = str_nat (ms mod 1000)
      in replicate (2 - length whole) CHR ''0'' @ whole @ ''.''
         @ replicate (3 - length frac) CHR ''0'' @ frac)"

definition format_time :: "real \<Rightarrow> string" where
  "format_time seconds =
     (let hours = \<lfloor>seconds / 3600\<rfloor>;
          minutes = \<lfloor>(seconds - 3600 * of_int \<lfloor>seconds / 3600\<rfloor>) / 60\<rfloor>;
          secs = seconds - 60 * of_int \<lfloor>seconds / 60\<rfloor>
      in map (\<lambda>c. if c = CHR ''.'' then CHR '','' else c)
           (fmt_02d hours @ '':'' @ fmt_02d minutes @ '':'' @ fmt_06_3f secs))"

text \<open>The three \<^verbatim>\<open>f.write\<close> calls of one loop iteration, for the segment at index \<open>i\<close>.\<close>

definition srt_entry :: "nat \<Rightarrow> segment \<Rightarrow> string" where
  "srt_entry i seg =
     (let start = seg_start seg;
          end_time = seg_end seg;
          text = py_strip (seg_text seg);
          start_str = format_time start;
          end_str = format_time end_time
      in str_nat (i + 1) @ [CHR 0x0A]
         @ start_str @ '' --> '' @ end_str @ [CHR 0x0A]
         @ text @ [CHR 0x0A, CHR 0x0A])"

definition srt_text :: "segment list \<Rightarrow> string" where
  "srt_text segments = concat (map (\<lambda>(i, seg). srt_entry i seg) (enumerate 0 segments))"

text \<open>
  \<^verbatim>\<open>generate_subtitles\<close>: \<open>transcribe env\<close> stands for \<^verbatim>\<open>whisper.load_model\<close> followed by
  \<^verbatim>\<open>model.transcribe\<close> and yields \<open>None\<close> when either raises, which happens before the
  output file is opened.
\<close>

definition generate_subtitles :: "env \<Rightarrow> path \<Rightarrow> path \<Rightarrow> string \<Rightarrow> world \<Rightarrow> bool \<times> world" where
  "generate_subtitles env video_path output_srt language w =
     (if \<not> has_whisper env then (False, w)
      else (case transcribe env w video_path language of
              None \<Rightarrow> (False, w)
            | Some segments \<Rightarrow> (True, write_file output_srt (Text (srt_text segments)) w)))"

section \<open>CaptionBurner\<close>

definition py_replace :: "char \<Rightarrow> string \<Rightarrow> string \<Rightarrow> string" where
  "py_replace c r s = concat (map (\<lambda>x. if x = c then r else [x]) s)"

definition escape_path :: "path \<Rightarrow> string" where
  "escape_path tmp_srt_path =
     py_replace CHR '':'' [CHR 0x5C, CHR '':'']
       (py_replace CHR 0x5C [CHR 0x5C, CHR 0x5C] tmp_srt_path)"

definition encode_args :: "string list" where
  "encode_args = [''-c:v'', ''libx264'', ''-preset'', ''medium'', ''-crf'', ''23'',
                  ''-c:a'', ''aac'', ''-b:a'', ''128k'']"

definition burn_cmd1 :: "path \<Rightarrow> string \<Rightarrow> path \<Rightarrow> cmdline" where
  "burn_cmd1 video_path escaped_path output_path =
     [''ffmpeg'', ''-i'', video_path, ''-vf'', ''subtitles='' @ escaped_path]
     @ encode_args @ [''-y'', output_path]"

definition style :: string where
  "style = ''Fontname=Arial,Fontsize=24,''
         @ ''PrimaryColour=&H00FFFFFF,''
         @ ''OutlineColour=&H00000000,''
         @ ''BackColour=&H80000000,''
         @ ''BorderStyle=3,Outline=1,Shadow=1,MarginV=20''"

definition burn_cmd2 :: "path \<Rightarrow> string \<Rightarrow> path \<Rightarrow> cmdline" where
  "burn_cmd2 video_path escaped_path output_path =
     [''ffmpeg'', ''-i'', video_path,
      ''-vf'', ''subtitles='' @ escaped_path @ '':force_style='' @ [CHR 0x27] @ style @ [CHR 0x27]]
     @ encode_args @ [''-y'', output_path]"

definition burn_cmd3 :: "path \<Rightarrow> path \<Rightarrow> cmdline" where
  "burn_cmd3 video_path output_path =
     [''ffmpeg'', ''-i'', video_path] @ encode_args @ [''-y'', output_path]"

text \<open>The name \<^verbatim>\<open>burn_subtitles\<close> gets for its temporary copy of the subtitle file.\<close>

definition tmp_srt :: "env \<Rightarrow> world \<Rightarrow> path" where
  "tmp_srt env w = mktemp env w (Some ''/tmp'') ''.srt''"

text \<open>
  \<^verbatim>\<open>burn_subtitles\<close>. Each \<^verbatim>\<open>try\<close> catches \<^verbatim>\<open>CalledProcessError\<close> only, so an exception
  of \<^verbatim>\<open>shutil.copy2\<close> or of an unguarded \<^verbatim>\<open>os.unlink\<close> leaves the function (\<open>Inl\<close>); the
  last \<^verbatim>\<open>os.unlink\<close> is guarded by \<^verbatim>\<open>except OSError: pass\<close>.
\<close>

definition burn_subtitles :: "env \<Rightarrow> path \<Rightarrow> path \<Rightarrow> path \<Rightarrow> world \<Rightarrow> (exc + bool) \<times> world" where
  "burn_subtitles env video_path srt_path output_path w =
     (if \<not> os_path_exists w srt_path then (Inr False, w)
      else
        (let (tmp_srt_path, w0) = named_temporary_file env ''.srt'' (Some ''/tmp'') w in
         (case shutil_copy2 srt_path tmp_srt_path w0 of
            (Inl e, w1) \<Rightarrow> (Inl e, w1)
          | (Inr u, w1) \<Rightarrow>
              (let escaped_path = escape_path tmp_srt_path in
               (case subprocess_run env (burn_cmd1 video_path escaped_path output_path) w1 of
                  (Inr out, w2) \<Rightarrow>
                    (case os_unlink tmp_srt_path w2 of
                       (Inl e, w3) \<Rightarrow> (Inl e, w3)
                     | (Inr u, w3) \<Rightarrow> (Inr True, w3))
                | (Inl err, w2) \<Rightarrow>
                    (case subprocess_run env (burn_cmd2 video_path escaped_path output_path) w2 of
                       (Inr out, w3) \<Rightarrow>
                         (case os_unlink tmp_srt_path w3 of
                            (Inl e, w4) \<Rightarrow> (Inl e, w4)
                          | (Inr u, w4) \<Rightarrow> (Inr True, w4))
                     | (Inl err2, w3) \<Rightarrow>
                         (case subprocess_run env (burn_cmd3 video_path output_path) w3 of
                            (Inr out, w4) \<Rightarrow>
                              (case os_unlink tmp_srt_path w4 of
                                 (Inl e, w5) \<Rightarrow> (Inl e, w5)
                               | (Inr u, w5) \<Rightarrow> (Inr True, w5))
                          | (Inl err3, w4) \<Rightarrow>
                              (case os_unlink tmp_srt_path w4 of
                                 (Inl e, w5) \<Rightarrow> (Inr False, w5)
                               | (Inr u, w5) \<Rightarrow> (Inr False, w5)))))))))"

section \<open>ThumbnailExtractor\<close>

definition thumbnail_cmd :: "path \<Rightarrow> path \<Rightarrow> nat \<Rightarrow> cmdline" where
  "thumbnail_cmd video_path output_image time_sec =
     [''ffmpeg'', ''-i'', video_path, ''-ss'', str_nat time_sec, ''-vframes'', ''1'',
      ''-vf'', ''scale=1080:1920:force_original_aspect_ratio=increase,crop=1080:1920'',
      ''-y'', output_image]"

definition thumbnail_cmd2 :: "path \<Rightarrow> path \<Rightarrow> cmdline" where
  "thumbnail_cmd2 video_path output_image =
     [''ffmpeg'', ''-i'', video_path, ''-vf'', ''select=eq(n'' @ [CHR 0x5C] @ '',0)'',
      ''-vframes'', ''1'', ''-y'', output_image]"

definition generate_thumbnail :: "env \<Rightarrow> path \<Rightarrow> path \<Rightarrow> nat \<Rightarrow> world \<Rightarrow> bool \<times> world" where
  "generate_thumbnail env video_path output_image time_sec w =
     (case subprocess_run env (thumbnail_cmd video_path output_image time_sec) w of
        (Inr out, w1) \<Rightarrow> (True, w1)
      | (Inl err, w1) \<Rightarrow>
          (case subprocess_run env (thumbnail_cmd2 video_path output_image) w1 of
             (Inr out, w2) \<Rightarrow> (True, w2)
           | (Inl err2, w2) \<Rightarrow> (False, w2)))"

section \<open>PipelineOrchestrator\<close>

text \<open>
  \<^verbatim>\<open>check_dependencies\<close>: one \<^verbatim>\<open>which\<close> per required binary, collecting the missing
  ones; the result is \<^verbatim>\<open>True\<close> when none is missing.
\<close>

definition check_dependencies :: "env \<Rightarrow> world \<Rightarrow> bool \<times> world" where
  "check_dependencies env w =
     (let required = [''yt-dlp'', ''ffmpeg''];
          (missing, w') =
            fold (\<lambda>cmd (missing, w).
                    case subprocess_run env [''which'', cmd] w of
                      (Inr out, w') \<Rightarrow> (missing, w')
                    | (Inl err, w') \<Rightarrow> (missing @ [cmd], w'))
                 required ([], w)
      in if missing \<noteq> [] then (False, w') else (True, w'))"

definition ytdlp_cmd :: "string \<Rightarrow> path \<Rightarrow> string \<Rightarrow> cmdline" where
  "ytdlp_cmd url output_dir quality =
     [''yt-dlp'',
      ''-f'', ''bestvideo[height<='' @ butlast quality @ '']+bestaudio/best[height<=''
              @ butlast quality @ '']'',
      ''--merge-output-format'', ''mp4'',
      ''-o'', os_path_join output_dir ''original.%(ext)s'',
      url]"

text \<open>\<^verbatim>\<open>os.listdir\<close>: the names of the files directly inside a directory.\<close>

definition os_listdir :: "world \<Rightarrow> path \<Rightarrow> string list" where
  "os_listdir w dir =
     (let prefix = os_path_join dir []
      in [drop (length prefix) p. p \<leftarrow> map fst (files w),
            take (length prefix) p = prefix,
            drop (length prefix) p \<noteq> [],
            CHR ''/'' \<notin> set (drop (length prefix) p)])"

text \<open>
  \<^verbatim>\<open>download_video\<close>: \<open>Inr None\<close> when \<^verbatim>\<open>yt-dlp\<close> fails, \<open>Inl FileNotFoundError\<close> for
  the \<^verbatim>\<open>raise\<close> when no downloaded file is found, otherwise the path of the file.
\<close>

definition download_video :: "env \<Rightarrow> string \<Rightarrow> path \<Rightarrow> string \<Rightarrow> world \<Rightarrow> (exc + path option) \<times> world" where
  "download_video env url output_dir quality w =
     (case subprocess_run env (ytdlp_cmd url output_dir quality) w of
        (Inl err, w') \<Rightarrow> (Inr None, w')
      | (Inr out, w') \<Rightarrow>
          (case filter (\<lambda>ext. os_path_exists w' (os_path_join output_dir (''original'' @ ext)))
                  [''.mp4'', ''.mkv'', ''.webm''] of
             ext # rest \<Rightarrow> (Inr (Some (os_path_join output_dir (''original'' @ ext))), w')
           | [] \<Rightarrow>
               (case filter (\<lambda>file. py_startswith file ''original.'') (os_listdir w' output_dir) of
                  file # rest \<Rightarrow> (Inr (Some (os_path_join output_dir file)), w')
                | [] \<Rightarrow> (Inl FileNotFoundError, w'))))"

record args =
  arg_url :: string
  arg_duration :: real
  arg_quality :: string
  arg_output_dir :: path
  arg_highlight_method :: string
  arg_subtitle_lang :: string

text \<open>
  How a run of \<^verbatim>\<open>main\<close> ends: \<^verbatim>\<open>sys.exit(n)\<close>, an exception nobody catches, or the end
  of the function with the metadata it wrote.
\<close>

datatype outcome =
    SysExit nat
  | Uncaught exc
  | Complete metadata


text \<open>
  \<^verbatim>\<open>main\<close> is embedded in the blocks its comments mark. Lines 415 to 426: burn the
  subtitles when the subtitle file exists and settle the final path.
\<close>

definition main_caption_stage :: "env \<Rightarrow> path \<Rightarrow> path \<Rightarrow> path \<Rightarrow> world \<Rightarrow> (exc + path) \<times> world" where
  "main_caption_stage env vertical_path srt_path final_path w =
     (case (if os_path_exists w srt_path then
              (case burn_subtitles env vertical_path srt_path final_path w of
                 (Inl e, w') \<Rightarrow> (Inl e, w')
               | (Inr burned, w') \<Rightarrow> (Inr (if \<not> burned then vertical_path else final_path), w'))
            else (Inr vertical_path, w)) of
        (Inl e, w') \<Rightarrow> (Inl e, w')
      | (Inr final_path', w') \<Rightarrow>
          (Inr (if \<not> os_path_exists w' final_path' then vertical_path else final_path'), w'))"

text \<open>Lines 428 to 461: the thumbnail, the metadata and its JSON file.\<close>

definition main_record_stage ::
    "env \<Rightarrow> args \<Rightarrow> string \<Rightarrow> real \<Rightarrow> real \<Rightarrow> path \<Rightarrow> path \<Rightarrow> path \<Rightarrow> world \<Rightarrow> metadata \<times> world" where
  "main_record_stage env a ts start_time duration vertical_path srt_path final_path w =
     (let output_dir = arg_output_dir a;
          thumbnail_path = os_path_join output_dir (''thumbnail_'' @ ts @ ''.png'');
          (thumb, w1) = generate_thumbnail env final_path thumbnail_path 10 w;
          md = \<lparr>md_original_url = arg_url a,
                md_clip_start = start_time,
                md_clip_duration = duration,
                md_vertical_clip = vertical_path,
                md_final_clip = final_path,
                md_thumbnail = thumbnail_path,
                md_subtitles = (if os_path_exists w1 srt_path then Some srt_path else None),
                md_timestamp = ts,
                md_quality = arg_quality a\<rparr>;
          metadata_path = os_path_join output_dir (''metadata_'' @ ts @ ''.json'')
      in (md, write_file metadata_path (Json md) w1))"

text \<open>Lines 410 to 461: everything after the vertical clip has been created.\<close>

definition main_after_transform ::
    "env \<Rightarrow> args \<Rightarrow> string \<Rightarrow> real \<Rightarrow> real \<Rightarrow> path \<Rightarrow> world \<Rightarrow> outcome \<times> world" where
  "main_after_transform env a ts start_time duration vertical_path w =
     (let output_dir = arg_output_dir a;
          srt_path = os_path_join output_dir (''subtitles_'' @ ts @ ''.srt'');
          w1 = (if has_whisper env
                then snd (generate_subtitles env vertical_path srt_path (arg_subtitle_lang a) w)
                else w);
          final_path = os_path_join output_dir (''final_'' @ ts @ ''.mp4'')
      in case main_caption_stage env vertical_path srt_path final_path w1 of
           (Inl e, w2) \<Rightarrow> (Uncaught e, w2)
         | (Inr final_path', w2) \<Rightarrow>
             (let (md, w3) = main_record_stage env a ts start_time duration
                               vertical_path srt_path final_path' w2
              in (Complete md, w3)))"

text \<open>Lines 389 to 461: the run from the download on.\<close>

definition main_from_acquiring :: "env \<Rightarrow> args \<Rightarrow> world \<Rightarrow> outcome \<times> world" where
  "main_from_acquiring env a w =
     (let output_dir = arg_output_dir a;
          ts = now env
      in case download_video env (arg_url a) output_dir (arg_quality a) w of
           (Inl e, w1) \<Rightarrow> (Uncaught e, w1)
         | (Inr None, w1) \<Rightarrow> (SysExit 1, w1)
         | (Inr (Some video_path), w1) \<Rightarrow>
             if video_path = [] then (SysExit 1, w1)
             else
               (let ((start_time, duration), w2) =
                      detect_highlights env video_path (arg_duration a) (arg_highlight_method a) w1;
                    vertical_path = os_path_join output_dir (''vertical_'' @ ts @ ''.mp4'');
                    (created, w3) =
                      create_vertical_clip env video_path vertical_path start_time duration w2
                in if \<not> created then (SysExit 1, w3)
                   else main_after_transform env a ts start_time duration vertical_path w3))"

definition main :: "env \<Rightarrow> args \<Rightarrow> world \<Rightarrow> outcome \<times> world" where
  "main env a w =
     (let (deps, w0) = check_dependencies env w
      in if \<not> deps then (SysExit 1, w0) else main_from_acquiring env a w0)"

section \<open>Notions of the specification\<close>

text \<open>
  The uniform-midpoint window of the specification, in its own words:
  \<^verbatim>\<open>offset = max(0, (total_duration - window_duration) / 2)\<close>, with the requested
  duration.
\<close>

definition uniform_midpoint :: "real \<Rightarrow> real \<Rightarrow> real \<times> real" where
  "uniform_midpoint total_duration window_duration =
     (max 0 ((total_duration - window_duration) / 2), window_duration)"




section \<open>Example environments\<close>

text \<open>
  A tool behaviour for concrete runs: \<^verbatim>\<open>ffprobe\<close> prints \<open>probe_out\<close>. With
  \<open>ffmpeg_ok\<close> on, an \<^verbatim>\<open>ffmpeg\<close> invocation whose fourth argument is \<^verbatim>\<open>-vf\<close> (the two
  caption overlays of \<^verbatim>\<open>burn_subtitles\<close> and the first-frame thumbnail) fails and leaves a
  partial output file; with \<open>ffmpeg_ok\<close> off, every \<^verbatim>\<open>ffmpeg\<close> invocation fails and
  writes nothing. Every other invocation succeeds.
\<close>

definition example_tool :: "string \<Rightarrow> bool \<Rightarrow> cmdline \<Rightarrow> proc_result" where
  "example_tool probe_out ffmpeg_ok cmd =
     (if hd cmd = ''ffprobe'' then Exit0 probe_out
      else if hd cmd = ''ffmpeg'' then
        (if ffmpeg_ok \<and> cmd ! 3 \<noteq> ''-vf'' then Exit0 [] else ExitNonzero ''error'' ffmpeg_ok)
      else Exit0 [])"

text \<open>The engine output of the example: two segments, the second starting before the first.\<close>

definition example_segments :: "segment list" where
  "example_segments =
     [\<lparr>seg_start = 5, seg_end = 7, seg_text = ''second''\<rparr>,
      \<lparr>seg_start = 2, seg_end = 4, seg_text = ''first''\<rparr>]"

definition example_env :: "bool \<Rightarrow> bool \<Rightarrow> (cmdline \<Rightarrow> proc_result) \<Rightarrow> env" where
  "example_env opencv whisper t =
     \<lparr>has_opencv = opencv,
      has_whisper = whisper,
      tool = (\<lambda>w. t),
      ytdlp_files = (\<lambda>cmd. [''out/original.mp4'']),
      mktemp = (\<lambda>w dir suffix. ''/tmp/tmpk3v9'' @ suffix),
      wave_readable = (\<lambda>w p. True),
      transcribe = (\<lambda>w p l. Some example_segments),
      py_float = (\<lambda>s. if s = ''30.0'' then Some 30 else if s = ''300.0'' then Some 300 else None),
      py_int = (\<lambda>s. if s = ''1080'' then Some 1080 else if s = ''2400'' then Some 2400 else None),
      py_str = (\<lambda>r. if r = 60 then ''60'' else ''0''),
      now = ''20240101_120000''\<rparr>"

definition example_args :: args where
  "example_args =
     \<lparr>arg_url = ''https://example.org/v'',
      arg_duration = 60,
      arg_quality = ''1080p'',
      arg_output_dir = ''out'',
      arg_highlight_method = ''audio'',
      arg_subtitle_lang = ''en''\<rparr>"

definition empty_world :: world where
  "empty_world = \<lparr>files = [], calls = []\<rparr>"

text \<open>A world holding an encoded clip and a subtitle file, as \<^verbatim>\<open>main\<close> has before captioning.\<close>

definition clip_world :: world where
  "clip_world = \<lparr>files = [(''out/v.mp4'', Encoded [''ffmpeg'']), (''out/s.srt'', Text ''1'')],
                 calls = []\<rparr>"

section \<open>Facts about the world model\<close>

lemma lookup_write_file [simp]:
  "lookup (write_file p c w) q = (if q = p then Some c else lookup w q)"
  by (simp add: lookup_def write_file_def update_conv')

lemma calls_write_file [simp]: "calls (write_file p c w) = calls w"
  by (simp add: write_file_def)

lemma lookup_write_all [simp]:
  "lookup (write_all ps c w) q = (if q \<in> set ps then Some c else lookup w q)"
  unfolding write_all_def by (induction ps arbitrary: w) auto

lemma calls_write_all [simp]: "calls (write_all ps c w) = calls w"
  unfolding write_all_def by (induction ps arbitrary: w) auto

lemma lookup_log_call [simp]: "lookup (log_call cmd ok w) q = lookup w q"
  by (simp add: lookup_def log_call_def)

lemma calls_log_call [simp]: "calls (log_call cmd ok w) = calls w @ [(cmd, ok)]"
  by (simp add: log_call_def)

lemma os_unlink_exists:
  assumes "lookup w p \<noteq> None"
  shows "\<exists>w'. os_unlink p w = (Inr (), w') \<and> calls w' = calls w
           \<and> (\<forall>q. lookup w' q = (if q = p then None else lookup w q))"
  using assms by (simp add: os_unlink_def os_path_exists_def lookup_def delete_conv')

text \<open>The two ways a tool invocation ends, with what each does to the log and the files.\<close>

lemma subprocess_run_cases:
  obtains (ok) out w' where "subprocess_run env cmd w = (Inr out, w')"
      "calls w' = calls w @ [(cmd, True)]"
      "\<And>q. lookup w' q = (if q \<in> set (targets env cmd) then Some (Encoded cmd) else lookup w q)"
  | (fail) err w' where "subprocess_run env cmd w = (Inl err, w')"
      "calls w' = calls w @ [(cmd, False)]"
      "\<And>q. q \<notin> set (targets env cmd) \<Longrightarrow> lookup w' q = lookup w q"
      "\<And>q. lookup w q \<noteq> None \<Longrightarrow> lookup w' q \<noteq> None"
proof (cases "tool env w cmd")
  case (Exit0 out)
  show ?thesis
    by (rule ok[of out "log_call cmd True (write_all (targets env cmd) (Encoded cmd) w)"])
       (simp_all add: subprocess_run_def Exit0)
next
  case (ExitNonzero err partial)
  show ?thesis
    by (rule fail[of err "log_call cmd False
             (if partial then write_all (targets env cmd) (Truncated cmd) w else w)"])
       (simp_all add: subprocess_run_def ExitNonzero)
qed

lemma targets_burn_cmd1 [simp]: "targets env (burn_cmd1 v e out) = [out]"
  by (simp add: targets_def burn_cmd1_def encode_args_def)

lemma targets_burn_cmd2 [simp]: "targets env (burn_cmd2 v e out) = [out]"
  by (simp add: targets_def burn_cmd2_def encode_args_def)

lemma targets_burn_cmd3 [simp]: "targets env (burn_cmd3 v out) = [out]"
  by (simp add: targets_def burn_cmd3_def encode_args_def)

section \<open>Facts about the caption burner\<close>

text \<open>
  Every run of \<^verbatim>\<open>burn_subtitles\<close> on an existing subtitle file follows one of four
  paths; each is given with its log, its result and its effect on the files.
\<close>

lemma burn_subtitles_cases:
  assumes ex: "os_path_exists w srt_path"
  shows "\<exists>w'. snd (burn_subtitles env video_path srt_path output_path w) = w'
     \<and> lookup w' (tmp_srt env w) = None
     \<and> (\<forall>q. q \<noteq> tmp_srt env w \<and> q \<noteq> output_path \<longrightarrow> lookup w' q = lookup w q)
     \<and> (let e = escape_path (tmp_srt env w);
             c1 = burn_cmd1 video_path e output_path;
             c2 = burn_cmd2 video_path e output_path;
             c3 = burn_cmd3 video_path output_path;
             r = fst (burn_subtitles env video_path srt_path output_path w)
         in (r = Inr True \<and> calls w' = calls w @ [(c1, True)]
               \<and> (output_path \<noteq> tmp_srt env w \<longrightarrow> lookup w' output_path = Some (Encoded c1)))
          \<or> (r = Inr True \<and> calls w' = calls w @ [(c1, False), (c2, True)]
               \<and> (output_path \<noteq> tmp_srt env w \<longrightarrow> lookup w' output_path = Some (Encoded c2)))
          \<or> (r = Inr True \<and> calls w' = calls w @ [(c1, False), (c2, False), (c3, True)]
               \<and> (output_path \<noteq> tmp_srt env w \<longrightarrow> lookup w' output_path = Some (Encoded c3)))
          \<or> (r = Inr False \<and> calls w' = calls w @ [(c1, False), (c2, False), (c3, False)]))"
proof -
  define tmp where "tmp = tmp_srt env w"
  define e where "e = escape_path tmp"
  define w0 where "w0 = write_file tmp (Text []) w"
  have "lookup w0 srt_path \<noteq> None"
    using ex by (simp add: w0_def os_path_exists_def)
  then obtain c where c: "lookup w0 srt_path = Some c" by blast
  define w1 where "w1 = write_file tmp c w0"
  have ntf: "named_temporary_file env ''.srt'' (Some ''/tmp'') w = (tmp, w0)"
    by (simp add: named_temporary_file_def tmp_def tmp_srt_def w0_def Let_def)
  have cp: "shutil_copy2 srt_path tmp w0 = (Inr (), w1)"
    by (simp add: shutil_copy2_def c w1_def)
  have w1_calls: "calls w1 = calls w" by (simp add: w1_def w0_def)
  have w1_tmp: "lookup w1 tmp \<noteq> None" by (simp add: w1_def)
  have w1_frame: "\<And>q. q \<noteq> tmp \<Longrightarrow> lookup w1 q = lookup w q" by (simp add: w1_def w0_def)
  have start: "burn_subtitles env video_path srt_path output_path w =
     (case subprocess_run env (burn_cmd1 video_path e output_path) w1 of
              (Inr out, w2) \<Rightarrow>
                (case os_unlink tmp w2 of
                   (Inl e, w3) \<Rightarrow> (Inl e, w3)
                 | (Inr u, w3) \<Rightarrow> (Inr True, w3))
            | (Inl err, w2) \<Rightarrow>
                (case subprocess_run env (burn_cmd2 video_path e output_path) w2 of
                   (Inr out, w3) \<Rightarrow>
                     (case os_unlink tmp w3 of
                        (Inl e, w4) \<Rightarrow> (Inl e, w4)
                      | (Inr u, w4) \<Rightarrow> (Inr True, w4))
                 | (Inl err2, w3) \<Rightarrow>
                     (case subprocess_run env (burn_cmd3 video_path output_path) w3 of
                        (Inr out, w4) \<Rightarrow>
                          (case os_unlink tmp w4 of
                             (Inl e, w5) \<Rightarrow> (Inl e, w5)
                           | (Inr u, w5) \<Rightarrow> (Inr True, w5))
                      | (Inl err3, w4) \<Rightarrow>
                          (case os_unlink tmp w4 of
                             (Inl e, w5) \<Rightarrow> (Inr False, w5)
                           | (Inr u, w5) \<Rightarrow> (Inr False, w5)))))"
    unfolding e_def burn_subtitles_def by (simp add: ex ntf cp Let_def)
  show ?thesis
  proof (cases rule: subprocess_run_cases[of env "burn_cmd1 video_path e output_path" w1])
    case (ok out w2)
    from ok(3) w1_tmp have "lookup w2 tmp \<noteq> None" by simp
    from os_unlink_exists[OF this] obtain w3 where
      u: "os_unlink tmp w2 = (Inr (), w3)" "calls w3 = calls w2"
         "\<And>q. lookup w3 q = (if q = tmp then None else lookup w2 q)" by blast
    have "burn_subtitles env video_path srt_path output_path w = (Inr True, w3)"
      by (simp add: start ok(1) u(1))
    then show ?thesis
      using u ok w1_calls w1_frame
      by (simp add: Let_def tmp_def[symmetric] e_def[symmetric])
  next
    case f1: (fail err w2)
    from f1(4) w1_tmp have t2: "lookup w2 tmp \<noteq> None" by simp
    show ?thesis
    proof (cases rule: subprocess_run_cases[of env "burn_cmd2 video_path e output_path" w2])
      case (ok out w3)
      from ok(3) t2 have "lookup w3 tmp \<noteq> None" by simp
      from os_unlink_exists[OF this] obtain w4 where
        u: "os_unlink tmp w3 = (Inr (), w4)" "calls w4 = calls w3"
           "\<And>q. lookup w4 q = (if q = tmp then None else lookup w3 q)" by blast
      have "burn_subtitles env video_path srt_path output_path w = (Inr True, w4)"
        by (simp add: start f1(1) ok(1) u(1))
      then show ?thesis
        using u ok f1 w1_calls w1_frame
        by (simp add: Let_def tmp_def[symmetric] e_def[symmetric])
    next
      case f2: (fail err2 w3)
      from f2(4) t2 have t3: "lookup w3 tmp \<noteq> None" by simp
      show ?thesis
      proof (cases rule: subprocess_run_cases[of env "burn_cmd3 video_path output_path" w3])
        case (ok out w4)
        from ok(3) t3 have "lookup w4 tmp \<noteq> None" by simp
        from os_unlink_exists[OF this] obtain w5 where
          u: "os_unlink tmp w4 = (Inr (), w5)" "calls w5 = calls w4"
             "\<And>q. lookup w5 q = (if q = tmp then None else lookup w4 q)" by blast
        have "burn_subtitles env video_path srt_path output_path w = (Inr True, w5)"
          by (simp add: start f1(1) f2(1) ok(1) u(1))
        then show ?thesis
          using u ok f1 f2 w1_calls w1_frame
          by (simp add: Let_def tmp_def[symmetric] e_def[symmetric])
      next
        case f3: (fail err3 w4)
        from f3(4) t3 have "lookup w4 tmp \<noteq> None" by simp
        from os_unlink_exists[OF this] obtain w5 where
          u: "os_unlink tmp w4 = (Inr (), w5)" "calls w5 = calls w4"
             "\<And>q. lookup w5 q = (if q = tmp then None else lookup w4 q)" by blast
        have "burn_subtitles env video_path srt_path output_path w = (Inr False, w5)"
          by (simp add: start f1(1) f2(1) f3(1) u(1))
        then show ?thesis
          using u f1 f2 f3 w1_calls w1_frame
          by (simp add: Let_def tmp_def[symmetric] e_def[symmetric])
      qed
    qed
  qed
qed

section \<open>Facts about the highlight selector\<close>


text \<open>
  Both the \<^verbatim>\<open>try\<close> body and the \<^verbatim>\<open>except\<close> branch of \<^verbatim>\<open>detect_audio_highlights\<close>
  return the uniform midpoint of a duration probed after the extraction attempt.
\<close>

lemma detect_audio_highlights_midpoint:
  "\<exists>w'. fst (detect_audio_highlights env p d w)
         = uniform_midpoint (fst (get_video_duration env p w')) d"
  by (auto simp: detect_audio_highlights_def uniform_midpoint_def Let_def
           split: prod.splits sum.splits) (metis fst_conv)+

lemma detect_face_segments_midpoint:
  "fst (detect_face_segments env p d w) = uniform_midpoint (fst (get_video_duration env p w)) d"
  by (auto simp: detect_face_segments_def uniform_midpoint_def Let_def split: prod.splits)

lemma detect_highlights_midpoint:
  assumes "has_opencv env"
  shows "\<exists>w'. fst (detect_highlights env p d m w)
            = uniform_midpoint (fst (get_video_duration env p w')) d"
proof -
  obtain t w1 where g: "get_video_duration env p w = (t, w1)"
    by (cases "get_video_duration env p w")
  show ?thesis
  proof (cases "m = ''audio''")
    case True
    then show ?thesis
      using assms detect_audio_highlights_midpoint[of env p d w1]
      by (simp add: detect_highlights_def g)
  next
    case not_audio: False
    show ?thesis
    proof (cases "m = ''face''")
      case True
      then show ?thesis
        using assms not_audio detect_face_segments_midpoint[of env p d w1]
        by (auto simp add: detect_highlights_def g)
    next
      case False
      have "fst (detect_highlights env p d m w)
            = uniform_midpoint (fst (get_video_duration env p w)) d"
        using assms False not_audio
        by (simp add: detect_highlights_def g uniform_midpoint_def)
      then show ?thesis by blast
    qed
  qed
qed

lemma example_duration_30:
  "fst (get_video_duration (example_env True True (example_tool ''30.0'' True)) ''in.mp4'' w') = 30"
  by (simp add: get_video_duration_def subprocess_run_def example_env_def
        example_tool_def ffprobe_duration_cmd_def py_strip_def py_isspace_def)

section \<open>Facts about the orchestrator\<close>

text \<open>The clip and the final path that \<^verbatim>\<open>main\<close> builds are never the same path.\<close>

lemma main_paths_distinct:
  "os_path_join d (''vertical_'' @ ts @ ''.mp4'') \<noteq> os_path_join d (''final_'' @ ts @ ''.mp4'')"
  by (simp add: os_path_join_def)



section \<open>Example runs\<close>

text \<open>
  The caption overlays are broken and everything else works: \<^verbatim>\<open>burn_subtitles\<close> falls
  through to the re-encode without captions.
\<close>

lemmas eval_defs = burn_subtitles_def named_temporary_file_def shutil_copy2_def subprocess_run_def
  os_unlink_def os_path_exists_def lookup_def write_file_def write_all_def log_call_def targets_def
  example_env_def example_tool_def clip_world_def Let_def tmp_srt_def

lemma example_burn_run:
  "fst (burn_subtitles (example_env True True (example_tool ''30.0'' True))
          ''out/v.mp4'' ''out/s.srt'' ''out/f.mp4'' clip_world) = Inr True
   \<and> calls (snd (burn_subtitles (example_env True True (example_tool ''30.0'' True))
          ''out/v.mp4'' ''out/s.srt'' ''out/f.mp4'' clip_world))
      = [(burn_cmd1 ''out/v.mp4'' (escape_path ''/tmp/tmpk3v9.srt'') ''out/f.mp4'', False),
         (burn_cmd2 ''out/v.mp4'' (escape_path ''/tmp/tmpk3v9.srt'') ''out/f.mp4'', False),
         (burn_cmd3 ''out/v.mp4'' ''out/f.mp4'', True)]
   \<and> files (snd (burn_subtitles (example_env True True (example_tool ''30.0'' True))
          ''out/v.mp4'' ''out/s.srt'' ''out/f.mp4'' clip_world))
      = [(''out/v.mp4'', Encoded [''ffmpeg'']), (''out/s.srt'', Text ''1''),
         (''out/f.mp4'', Encoded (burn_cmd3 ''out/v.mp4'' ''out/f.mp4''))]"
  by (simp add: eval_defs burn_cmd1_def burn_cmd2_def burn_cmd3_def encode_args_def)






section \<open>The claims\<close>

text \<open>
  C3. Claimed: whenever the requested window is at least as long as the source, the
  selector returns start 0 and a duration clamped to the length of the source. The code
  never clamps: with a source of 30 seconds and a request of 60 seconds it returns the
  window (0, 60), not (0, 30).
\<close>

theorem detect_highlights_no_clamp_counterexample:
  "fst (get_video_duration (example_env True True (example_tool ''30.0'' True))
          ''in.mp4'' empty_world) = 30
   \<and> (30::real) \<le> 60
   \<and> fst (detect_highlights (example_env True True (example_tool ''30.0'' True))
            ''in.mp4'' 60 ''motion'' empty_world) = (0, 60)
   \<and> fst (detect_highlights (example_env True True (example_tool ''30.0'' True))
            ''in.mp4'' 60 ''motion'' empty_world) \<noteq> (0, 30)"
  by (simp add: detect_highlights_def get_video_duration_def subprocess_run_def example_env_def
        example_tool_def ffprobe_duration_cmd_def py_strip_def py_isspace_def
        targets_def Let_def)

text \<open>
  C3, as the code has it: with the analysis capability present, for every strategy and
  every source whose probed duration does not exceed the requested window, the selector
  returns start 0 and the requested duration unchanged.
\<close>

theorem detect_highlights_short_source:
  assumes "has_opencv env" and "\<forall>w'. fst (get_video_duration env p w') \<le> d"
  shows "fst (detect_highlights env p d m w) = (0, d)"
proof -
  obtain w' where "fst (detect_highlights env p d m w)
                   = uniform_midpoint (fst (get_video_duration env p w')) d"
    using detect_highlights_midpoint[OF assms(1)] by blast
  moreover have "fst (get_video_duration env p w') \<le> d"
    using assms(2) by blast
  ultimately show ?thesis by (simp add: uniform_midpoint_def)
qed

theorem detect_highlights_short_source_witness:
  "has_opencv (example_env True True (example_tool ''30.0'' True))
   \<and> (\<forall>w'. fst (get_video_duration (example_env True True (example_tool ''30.0'' True))
                  ''in.mp4'' w') \<le> 60)
   \<and> fst (detect_highlights (example_env True True (example_tool ''30.0'' True))
            ''in.mp4'' 60 ''audio'' empty_world) = (0, 60)"
  using detect_highlights_short_source
          [of "example_env True True (example_tool ''30.0'' True)" "''in.mp4''" 60
              "''audio''" empty_world]
  by (simp add: example_duration_30) (simp add: example_env_def)

text \<open>
  C4. Claimed: when a signal-based strategy fails inside, OpenCV being absent included,
  the selector returns the uniform-midpoint window. Without OpenCV the code returns the
  total duration as the start: for a source of 300 seconds and a request of 60 seconds
  the window is (300, 60), where the uniform midpoint is (120, 60).
\<close>

theorem detect_highlights_without_opencv:
  "\<not> has_opencv (example_env False True (example_tool ''300.0'' True))
   \<and> fst (get_video_duration (example_env False True (example_tool ''300.0'' True))
            ''in.mp4'' empty_world) = 300
   \<and> fst (detect_highlights (example_env False True (example_tool ''300.0'' True))
            ''in.mp4'' 60 ''audio'' empty_world) = (300, 60)
   \<and> uniform_midpoint 300 60 = (120, 60)"
  by (simp add: detect_highlights_def get_video_duration_def subprocess_run_def example_env_def
        example_tool_def ffprobe_duration_cmd_def py_strip_def py_isspace_def uniform_midpoint_def
        targets_def Let_def)



text \<open>
  C6. Claimed: an engine output whose segment starts decrease is discarded and reported
  as a transcription failure. The code does not look at the order: for the two example
  segments, the second starting before the first, \<^verbatim>\<open>generate_subtitles\<close> returns
  \<^verbatim>\<open>True\<close> and the subtitle file exists.
\<close>

theorem generate_subtitles_unordered_counterexample:
  "has_whisper (example_env True True (example_tool ''30.0'' True))
   \<and> transcribe (example_env True True (example_tool ''30.0'' True))
        empty_world ''out/v.mp4'' ''en'' = Some example_segments
   \<and> seg_start (example_segments ! 1) < seg_start (example_segments ! 0)
   \<and> fst (generate_subtitles (example_env True True (example_tool ''30.0'' True))
            ''out/v.mp4'' ''out/s.srt'' ''en'' empty_world) = True
   \<and> os_path_exists
        (snd (generate_subtitles (example_env True True (example_tool ''30.0'' True))
                ''out/v.mp4'' ''out/s.srt'' ''en'' empty_world)) ''out/s.srt''"
  by (simp add: generate_subtitles_def example_env_def example_segments_def os_path_exists_def)

text \<open>
  C6, as the code has it: with Whisper present, whatever segments the engine returns and
  in whatever order, \<^verbatim>\<open>generate_subtitles\<close> reports success and the subtitle file holds
  one entry for each segment, in the order of the engine.
\<close>

theorem generate_subtitles_keeps_engine_order:
  assumes "has_whisper env" and "transcribe env w video_path language = Some segments"
  shows "fst (generate_subtitles env video_path output_srt language w) = True
     \<and> lookup (snd (generate_subtitles env video_path output_srt language w)) output_srt
         = Some (Text (srt_text segments))
     \<and> srt_text segments
         = concat (map (\<lambda>i. srt_entry i (segments ! i)) [0..<length segments])"
proof -
  have "map (\<lambda>(i, seg). srt_entry i seg) (enumerate 0 segments)
        = map (\<lambda>i. srt_entry i (segments ! i)) [0..<length segments]"
    by (auto simp: enumerate_eq_zip intro!: nth_equalityI)
  then show ?thesis
    using assms by (simp add: generate_subtitles_def srt_text_def)
qed

theorem generate_subtitles_keeps_engine_order_witness:
  "has_whisper (example_env True True (example_tool ''30.0'' True))
   \<and> transcribe (example_env True True (example_tool ''30.0'' True))
        empty_world ''out/v.mp4'' ''en'' = Some example_segments
   \<and> fst (generate_subtitles (example_env True True (example_tool ''30.0'' True))
            ''out/v.mp4'' ''out/s.srt'' ''en'' empty_world) = True
   \<and> lookup (snd (generate_subtitles (example_env True True (example_tool ''30.0'' True))
                    ''out/v.mp4'' ''out/s.srt'' ''en'' empty_world)) ''out/s.srt''
       = Some (Text (srt_text example_segments))"
  using generate_subtitles_keeps_engine_order
          [of "example_env True True (example_tool ''30.0'' True)" empty_world "''out/v.mp4''"
              "''en''" example_segments "''out/s.srt''"]
  by (simp add: example_env_def)





text \<open>
  C5. Claimed: for a source of any dimensions the transform scales to match the limiting
  target dimension and crops the other axis. The code probes the dimensions and then
  issues one fixed filter, scaling to the target height and cropping the width: for a
  source of 1080 by 2400, narrower than 9:16, the encode is invoked with the very filter
  it gets for 1920 by 1080.
\<close>

theorem vertical_clip_filter_fixed:
  "fst (probe_size (example_env True True (example_tool ''1080,2400'' True)) ''in.mp4'' empty_world)
     = (1080, 2400)
   \<and> map (\<lambda>(cmd, ok). cmd ! 8)
       (filter (\<lambda>(cmd, ok). hd cmd = ''ffmpeg'')
         (calls (snd (create_vertical_clip (example_env True True (example_tool ''1080,2400'' True))
                  ''in.mp4'' ''out/v.mp4'' 0 60 empty_world))))
     = [''scale=-2:1920,crop=1080:1920'']
   \<and> vertical_filter 1080 2400 = vertical_filter 1920 1080"
  by (simp add: create_vertical_clip_def probe_size_def ffprobe_size_cmd_def vertical_clip_cmd_def
        vertical_filter_def str_nat.simps subprocess_run_def write_all_def log_call_def write_file_def
        targets_def example_env_def example_tool_def empty_world_def py_strip_def py_isspace_def Let_def)

text \<open>
  C7. Claimed: when both thumbnail attempts fail, the record marks the thumbnail as
  absent. With an \<^verbatim>\<open>ffmpeg\<close> that always fails, \<^verbatim>\<open>generate_thumbnail\<close> returns
  \<^verbatim>\<open>False\<close> and no thumbnail file exists, yet the metadata names the thumbnail path;
  the subtitle entry next to it is \<^verbatim>\<open>None\<close> for the missing subtitle file.
\<close>

theorem thumbnail_recorded_when_absent:
  "fst (generate_thumbnail (example_env True True (example_tool ''30.0'' False))
          ''out/v.mp4'' ''out/thumbnail_20240101_120000.png'' 10 clip_world) = False
   \<and> md_thumbnail (fst (main_record_stage (example_env True True (example_tool ''30.0'' False))
          example_args ''20240101_120000'' 0 60 ''out/v.mp4'' ''out/none.srt'' ''out/v.mp4'' clip_world))
      = ''out/thumbnail_20240101_120000.png''
   \<and> md_subtitles (fst (main_record_stage (example_env True True (example_tool ''30.0'' False))
          example_args ''20240101_120000'' 0 60 ''out/v.mp4'' ''out/none.srt'' ''out/v.mp4'' clip_world))
      = None
   \<and> \<not> os_path_exists (snd (main_record_stage (example_env True True (example_tool ''30.0'' False))
          example_args ''20240101_120000'' 0 60 ''out/v.mp4'' ''out/none.srt'' ''out/v.mp4'' clip_world))
        ''out/thumbnail_20240101_120000.png''"
  by (simp add: main_record_stage_def generate_thumbnail_def thumbnail_cmd_def thumbnail_cmd2_def
        subprocess_run_def os_path_exists_def lookup_def write_file_def write_all_def log_call_def
        targets_def example_env_def example_tool_def clip_world_def example_args_def
        os_path_join_def Let_def)

text \<open>
  C8. Claimed: each attempt of the chain writes to a location of its own. In the example
  run the three attempts, two failing and one succeeding, all write to the one output
  path.
\<close>

theorem burn_attempts_share_output_counterexample:
  "map (\<lambda>(cmd, ok). (targets (example_env True True (example_tool ''30.0'' True)) cmd, ok))
     (calls (snd (burn_subtitles (example_env True True (example_tool ''30.0'' True))
          ''out/v.mp4'' ''out/s.srt'' ''out/f.mp4'' clip_world)))
   = [([''out/f.mp4''], False), ([''out/f.mp4''], False), ([''out/f.mp4''], True)]"
  using example_burn_run by simp

text \<open>
  C8, as the code has it: on an existing subtitle file, every attempt of
  \<^verbatim>\<open>burn_subtitles\<close> writes to the one output path it was given; every attempt but the
  last one made has failed, so no output of a successful attempt is written over; and
  apart from the output path and the temporary subtitle copy no file is touched.
\<close>

theorem burn_attempts_single_output:
  assumes "os_path_exists w srt_path"
  shows "let w' = snd (burn_subtitles env video_path srt_path output_path w);
             new = drop (length (calls w)) (calls w')
         in calls w' = calls w @ new
          \<and> map (\<lambda>(cmd, ok). targets env cmd) new = replicate (length new) [output_path]
          \<and> map snd (butlast new) = replicate (length new - 1) False
          \<and> (\<forall>q. q \<noteq> output_path \<and> q \<noteq> tmp_srt env w \<longrightarrow> lookup w' q = lookup w q)"
  using burn_subtitles_cases[OF assms, of env video_path output_path]
  by (auto simp: Let_def numeral_2_eq_2 numeral_3_eq_3)

theorem burn_attempts_single_output_witness:
  "os_path_exists clip_world ''out/s.srt''
   \<and> (let w' = snd (burn_subtitles (example_env True True (example_tool ''30.0'' True))
                      ''out/v.mp4'' ''out/s.srt'' ''out/f.mp4'' clip_world)
      in map snd (calls w') = [False, False, True]
       \<and> lookup w' ''out/v.mp4'' = lookup clip_world ''out/v.mp4''
       \<and> lookup w' ''out/s.srt'' = lookup clip_world ''out/s.srt'')"
proof -
  have e: "os_path_exists clip_world ''out/s.srt''"
    by (simp add: os_path_exists_def lookup_def clip_world_def)
  show ?thesis
    using burn_attempts_single_output[OF e, of "example_env True True (example_tool ''30.0'' True)" "''out/v.mp4''" "''out/f.mp4''"]
      e example_burn_run by (simp add: Let_def lookup_def clip_world_def)
qed



end
